theory Spec2Isabelle
  imports Main "HOL-Library.Sublist"
begin

section \<open>Data model\<close>

text \<open>
  Modelled from the spec: the \<open>JobContext\<close> struct is declared in another file of the
  package; \<open>k8s.go\<close> only reads its fields. The spec lists them, all strings. The field
  \<open>Image\<close> is written \<open>Image_jctx\<close> here, since \<open>Image\<close> is the relational image of HOL.
\<close>

record JobContext =
  ID :: string
  BaseName :: string
  Namespace :: string
  CPURequest :: string
  CPULimit :: string
  MemoryRequest :: string
  MemoryLimit :: string
  Image_jctx :: string
  ImagePullPolicy :: string
  MachineType :: string

text \<open>
  Go's \<open>error\<close> interface, as far as \<open>k8s.go\<close> sees it. \<open>fmt.Errorf\<close> without \<open>%w\<close>
  returns an \<open>errorString\<close> holding the formatted message; with one \<open>%w\<close> it returns a
  \<open>wrapError\<close> holding the formatted message and the wrapped error. Every other
  implementation (the errors of the quantity parser and of the cluster client) is
  \<open>Foreign\<close>: an opaque value of the collaborator together with the text of its
  \<open>Error()\<close> method.
\<close>

datatype 'e error =
    errorString string
  | wrapError string "'e error"
  | Foreign 'e string

fun Error :: "'e error \<Rightarrow> string" where
  "Error (errorString s) = s"
| "Error (wrapError msg err) = msg"
| "Error (Foreign x msg) = msg"

fun Unwrap :: "'e error \<Rightarrow> 'e error option" where
  "Unwrap (wrapError msg err) = Some err"
| "Unwrap (errorString s) = None"
| "Unwrap (Foreign x msg) = None"

text \<open>\<open>fmt.Errorf(prefix + "%w", err)\<close>: the message is the prefix followed by \<open>err.Error()\<close>.\<close>

definition Errorf_w :: "string \<Rightarrow> 'e error \<Rightarrow> 'e error" where
  "Errorf_w pfx err = wrapError (pfx @ Error err) err"

text \<open>The verb \<open>%d\<close> of \<open>fmt\<close> on a non-negative \<open>int\<close>: its decimal digits.\<close>

fun fmt_d :: "nat \<Rightarrow> string" where
  "fmt_d n =
     (if n < 10 then [''0123456789'' ! n]
      else fmt_d (n div 10) @ [''0123456789'' ! (n mod 10)])"

declare fmt_d.simps [simp del]

text \<open>
  The number a decimal numeral denotes: digits only, at least one, and no leading zero
  on a numeral of several digits. It says what \<open>fmt_d\<close> has to print: a string that
  reads back as the number.
\<close>

definition digit_value :: "char \<Rightarrow> nat option" where
  "digit_value c = map_of (zip ''0123456789'' [0, 1, 2, 3, 4, 5, 6, 7, 8, 9]) c"

fun read_digits :: "nat \<Rightarrow> string \<Rightarrow> nat option" where
  "read_digits acc [] = Some acc"
| "read_digits acc (c # cs) =
     (case digit_value c of
        None \<Rightarrow> None
      | Some d \<Rightarrow> read_digits (10 * acc + d) cs)"

fun read_decimal :: "string \<Rightarrow> nat option" where
  "read_decimal [] = None"
| "read_decimal [c] = digit_value c"
| "read_decimal (c # cs) = (if c = CHR ''0'' then None else read_digits 0 (c # cs))"

subsection \<open>The cluster's API objects\<close>

text \<open>
  The structs of \<open>k8s.io/api\<close>, \<open>k8s.io/apimachinery\<close> and \<open>kubevirt.io/api\<close> with the
  fields \<open>k8s.go\<close> sets, and \<open>ObjectMeta.Name\<close>, which it leaves at its zero value. A
  pointer field is an \<open>option\<close>, a Go map is a map. The type \<open>'q\<close> is
  \<open>resource.Quantity\<close>. Field names shared by several structs carry the struct's name.
\<close>

datatype ResourceName = ResourceCPU | ResourceMemory

record 'q ResourceRequirements =
  Requests :: "ResourceName \<rightharpoonup> 'q"
  Limits :: "ResourceName \<rightharpoonup> 'q"

record TypeMeta =
  APIVersion :: string
  Kind :: string

record ObjectMeta =
  ObjectMeta_Name :: string
  GenerateName :: string
  Labels :: "string \<rightharpoonup> string"

record Machine =
  Machine_Type :: string

record Disk =
  Disk_Name :: string

record Devices =
  Disks :: "Disk list"

record 'q DomainSpec =
  Resources :: "'q ResourceRequirements"
  Machine :: "Machine option"
  Devices :: Devices

record ContainerDiskSource =
  ContainerDisk_Image :: string
  ContainerDisk_ImagePullPolicy :: string

record VolumeSource =
  ContainerDisk :: "ContainerDiskSource option"

record Volume =
  Volume_Name :: string
  VolumeSource :: VolumeSource

record 'q VirtualMachineInstanceSpec =
  Spec_Domain :: "'q DomainSpec"
  Volumes :: "Volume list"

record 'q VirtualMachineInstance =
  TypeMeta :: TypeMeta
  ObjectMeta :: ObjectMeta
  Spec :: "'q VirtualMachineInstanceSpec"

record 'q VirtualMachineInstanceList =
  Items :: "'q VirtualMachineInstance list"

record ListOptions =
  LabelSelector :: string

subsection \<open>Collaborators\<close>

text \<open>
  What \<open>k8s.go\<close> takes from its libraries: the quantity parser
  \<open>resource.ParseQuantity\<close> and the two constants of the type header.
\<close>

record ('e, 'q) library =
  ParseQuantity :: "string \<Rightarrow> 'e error + 'q"
  GroupVersion_String :: string
  VirtualMachineInstance_Kind :: string

text \<open>
  The cluster client: \<open>client.VirtualMachineInstance(ns).Create\<close> and \<open>.List\<close>, each a
  function of the namespace, its argument and the cluster's state \<open>'c\<close>, returning the
  answer and the new state.
\<close>

record ('c, 'e, 'q) KubevirtClient =
  vmi_Create :: "string \<Rightarrow> 'q VirtualMachineInstance \<Rightarrow> 'c
                 \<Rightarrow> ('e error + 'q VirtualMachineInstance) \<times> 'c"
  vmi_List :: "string \<Rightarrow> ListOptions \<Rightarrow> 'c
               \<Rightarrow> ('e error + 'q VirtualMachineInstanceList) \<times> 'c"

text \<open>
  The state the two operations run in: the cluster's own state and the log of the calls
  made to the client, in order.
\<close>

datatype 'q call =
    Create_call string "'q VirtualMachineInstance"
  | List_call string ListOptions

record ('c, 'q) session =
  calls :: "'q call list"
  cluster :: 'c

definition Create ::
  "('c, 'e, 'q) KubevirtClient \<Rightarrow> string \<Rightarrow> 'q VirtualMachineInstance \<Rightarrow> ('c, 'q) session
   \<Rightarrow> ('e error + 'q VirtualMachineInstance) \<times> ('c, 'q) session" where
  "Create client ns vmi s =
     (case vmi_Create client ns vmi (cluster s) of
        (r, c') \<Rightarrow> (r, \<lparr>calls = calls s @ [Create_call ns vmi], cluster = c'\<rparr>))"

definition List_vmi ::
  "('c, 'e, 'q) KubevirtClient \<Rightarrow> string \<Rightarrow> ListOptions \<Rightarrow> ('c, 'q) session
   \<Rightarrow> ('e error + 'q VirtualMachineInstanceList) \<times> ('c, 'q) session" where
  "List_vmi client ns opts s =
     (case vmi_List client ns opts (cluster s) of
        (r, c') \<Rightarrow> (r, \<lparr>calls = calls s @ [List_call ns opts], cluster = c'\<rparr>))"

section \<open>The operations of k8s.go\<close>

definition labelPrefix :: string where
  "labelPrefix = ''gitlab-runner-kubevirt.snai.pe''"

definition CreateJobVM ::
  "('e, 'q) library \<Rightarrow> ('c, 'e, 'q) KubevirtClient \<Rightarrow> JobContext \<Rightarrow> ('c, 'q) session
   \<Rightarrow> ('e error + 'q VirtualMachineInstance) \<times> ('c, 'q) session" where
  "CreateJobVM lib client jctx s =
     (case ParseQuantity lib (CPURequest jctx) of
        Inl err \<Rightarrow> (Inl (Errorf_w ''parsing cpu.request: '' err), s)
      | Inr cpuReq \<Rightarrow>
     (case ParseQuantity lib (CPULimit jctx) of
        Inl err \<Rightarrow> (Inl (Errorf_w ''parsing cpu.limit: '' err), s)
      | Inr cpuLim \<Rightarrow>
     (case ParseQuantity lib (MemoryRequest jctx) of
        Inl err \<Rightarrow> (Inl (Errorf_w ''parsing memory.request: '' err), s)
      | Inr memReq \<Rightarrow>
     (case ParseQuantity lib (MemoryLimit jctx) of
        Inl err \<Rightarrow> (Inl (Errorf_w ''parsing memory.limit: '' err), s)
      | Inr memLim \<Rightarrow>
        if Image_jctx jctx = ''''
        then (Inl (errorString ''must specify a containerdisk image''), s)
        else
          let resources =
                \<lparr>Requests = [ResourceCPU \<mapsto> cpuReq, ResourceMemory \<mapsto> memReq],
                 Limits = [ResourceCPU \<mapsto> cpuLim, ResourceMemory \<mapsto> memLim]\<rparr>;
              instanceTemplate =
                \<lparr>TypeMeta =
                   \<lparr>APIVersion = GroupVersion_String lib,
                    Kind = VirtualMachineInstance_Kind lib\<rparr>,
                 ObjectMeta =
                   \<lparr>ObjectMeta_Name = '''',
                    GenerateName = BaseName jctx,
                    Labels = [labelPrefix @ ''/id'' \<mapsto> ID jctx]\<rparr>,
                 Spec =
                   \<lparr>Spec_Domain =
                      \<lparr>Resources = resources,
                       Machine = Some \<lparr>Machine_Type = MachineType jctx\<rparr>,
                       Devices = \<lparr>Disks = [\<lparr>Disk_Name = ''root''\<rparr>]\<rparr>\<rparr>,
                    Volumes =
                      [\<lparr>Volume_Name = ''root'',
                        VolumeSource =
                          \<lparr>ContainerDisk =
                             Some \<lparr>ContainerDisk_Image = Image_jctx jctx,
                                   ContainerDisk_ImagePullPolicy = ImagePullPolicy jctx\<rparr>\<rparr>\<rparr>]\<rparr>\<rparr>
          in Create client (Namespace jctx) instanceTemplate s))))"

definition Selector :: "JobContext \<Rightarrow> ListOptions" where
  "Selector jctx = \<lparr>LabelSelector = labelPrefix @ ''/id='' @ ID jctx\<rparr>"

definition FindJobVM ::
  "('c, 'e, 'q) KubevirtClient \<Rightarrow> JobContext \<Rightarrow> ('c, 'q) session
   \<Rightarrow> ('e error + 'q VirtualMachineInstance) \<times> ('c, 'q) session" where
  "FindJobVM client jctx s =
     (case List_vmi client (Namespace jctx) (Selector jctx) s of
        (Inl err, s') \<Rightarrow> (Inl err, s')
      | (Inr list, s') \<Rightarrow>
          if length (Items list) = 0
          then (Inl (errorString
                  ''Virtual Machine instance disappeared while the job was running!''), s')
          else if length (Items list) > 1
          then (Inl (errorString
                  (''Virtual Machine instance has ambiguous ID! '' @ fmt_d (length (Items list))
                   @ '' instances found with ID '' @ ID jctx)), s')
          else (Inr (Items list ! 0), s'))"

section \<open>Test doubles\<close>

text \<open>
  An in-memory cluster, as the spec's design notes ask for: its state is the list of the
  instances created so far. Creating stores the descriptor under a name made from its
  \<open>GenerateName\<close>; listing returns the stored instances whose identity label is the one
  the filter string names.
\<close>

definition memory_client ::
  "(string VirtualMachineInstance list, string, string) KubevirtClient" where
  "memory_client =
     \<lparr>vmi_Create = (\<lambda>ns vmi c.
        let created =
              vmi\<lparr>ObjectMeta :=
                    (ObjectMeta vmi)\<lparr>ObjectMeta_Name :=
                                       GenerateName (ObjectMeta vmi) @ fmt_d (length c)\<rparr>\<rparr>
        in (Inr created, c @ [created])),
      vmi_List = (\<lambda>ns opts c.
        (Inr \<lparr>Items =
                filter (\<lambda>vmi.
                  case Labels (ObjectMeta vmi) (labelPrefix @ ''/id'') of
                    None \<Rightarrow> False
                  | Some v \<Rightarrow> LabelSelector opts = labelPrefix @ ''/id='' @ v) c\<rparr>, c))\<rparr>"

text \<open>A cluster that answers every call with the error \<open>err\<close>.\<close>

definition failing_client :: "string error \<Rightarrow> (unit, string, string) KubevirtClient" where
  "failing_client err =
     \<lparr>vmi_Create = (\<lambda>ns vmi c. (Inl err, c)),
      vmi_List = (\<lambda>ns opts c. (Inl err, c))\<rparr>"

text \<open>
  A stand-in for the libraries: a parser that rejects the text \<open>not-a-quantity\<close> and
  keeps every other text as the quantity it stands for.
\<close>

definition test_library :: "(string, string) library" where
  "test_library =
     \<lparr>ParseQuantity = (\<lambda>s.
        if s = ''not-a-quantity''
        then Inl (Foreign ''ErrFormatWrong'' ''quantities must match the regular expression'')
        else Inr s),
      GroupVersion_String = ''kubevirt.io/v1'',
      VirtualMachineInstance_Kind = ''VirtualMachineInstance''\<rparr>"

text \<open>The context of the spec's end-to-end scenario A.\<close>

definition scenario_A :: JobContext where
  "scenario_A =
     \<lparr>ID = ''job-1'', BaseName = ''runner-'', Namespace = ''ci'',
      CPURequest = ''250m'', CPULimit = ''500m'',
      MemoryRequest = ''256Mi'', MemoryLimit = ''512Mi'',
      Image_jctx = ''registry/test:latest'', ImagePullPolicy = ''IfNotPresent'',
      MachineType = ''q35''\<rparr>"

text \<open>The context of the spec's end-to-end scenario B: scenario A's, with a malformed CPU request.\<close>

definition scenario_B :: JobContext where
  "scenario_B = scenario_A\<lparr>CPURequest := ''not-a-quantity''\<rparr>"

text \<open>The instance that scenario A's context describes, under a given name.\<close>

definition instance_A :: "string \<Rightarrow> string VirtualMachineInstance" where
  "instance_A name =
     \<lparr>TypeMeta = \<lparr>APIVersion = ''kubevirt.io/v1'', Kind = ''VirtualMachineInstance''\<rparr>,
      ObjectMeta =
        \<lparr>ObjectMeta_Name = name, GenerateName = ''runner-'',
         Labels = [''gitlab-runner-kubevirt.snai.pe/id'' \<mapsto> ''job-1'']\<rparr>,
      Spec =
        \<lparr>Spec_Domain =
           \<lparr>Resources =
              \<lparr>Requests = [ResourceCPU \<mapsto> ''250m'', ResourceMemory \<mapsto> ''256Mi''],
               Limits = [ResourceCPU \<mapsto> ''500m'', ResourceMemory \<mapsto> ''512Mi'']\<rparr>,
            Machine = Some \<lparr>Machine_Type = ''q35''\<rparr>,
            Devices = \<lparr>Disks = [\<lparr>Disk_Name = ''root''\<rparr>]\<rparr>\<rparr>,
         Volumes =
           [\<lparr>Volume_Name = ''root'',
             VolumeSource =
               \<lparr>ContainerDisk =
                  Some \<lparr>ContainerDisk_Image = ''registry/test:latest'',
                        ContainerDisk_ImagePullPolicy = ''IfNotPresent''\<rparr>\<rparr>\<rparr>]\<rparr>\<rparr>"

text \<open>Twelve instances that all carry scenario A's identity label.\<close>

definition a_dozen :: "string VirtualMachineInstance list" where
  "a_dozen =
     map instance_A
       [''runner-0'', ''runner-1'', ''runner-2'', ''runner-3'', ''runner-4'', ''runner-5'',
        ''runner-6'', ''runner-7'', ''runner-8'', ''runner-9'', ''runner-10'', ''runner-11'']"

text \<open>A session that has made no call yet, on a cluster in a given state.\<close>

definition holding :: "'c \<Rightarrow> ('c, string) session" where
  "holding c = \<lparr>calls = [], cluster = c\<rparr>"

section \<open>Auxiliary facts\<close>

lemma fmt_d_digit: "n < 10 \<Longrightarrow> fmt_d n = [''0123456789'' ! n]"
  by (simp add: fmt_d.simps)

lemma digit_value_digit:
  assumes "d < 10"
  shows "digit_value (''0123456789'' ! d) = Some d"
proof -
  from assms have "d \<in> {0, 1, 2, 3, 4, 5, 6, 7, 8, 9}" by auto
  then show ?thesis by (auto simp: digit_value_def)
qed

lemma digit_zero:
  assumes "d < 10" and "''0123456789'' ! d = CHR ''0''"
  shows "d = 0"
proof -
  from assms(1) have "d \<in> {0, 1, 2, 3, 4, 5, 6, 7, 8, 9}" by auto
  with assms(2) show ?thesis by auto
qed

lemma read_digits_snoc:
  "read_digits acc (cs @ [c]) =
     (case read_digits acc cs of
        None \<Rightarrow> None
      | Some v \<Rightarrow> (case digit_value c of None \<Rightarrow> None | Some d \<Rightarrow> Some (10 * v + d)))"
  by (induction cs arbitrary: acc) (auto split: option.splits)

lemma read_digits_fmt_d: "read_digits 0 (fmt_d n) = Some n"
proof (induction n rule: fmt_d.induct)
  case (1 n)
  show ?case
  proof (cases "n < 10")
    case True
    then show ?thesis
      by (simp add: fmt_d_digit digit_value_digit)
  next
    case False
    have d: "digit_value (''0123456789'' ! (n mod 10)) = Some (n mod 10)"
      by (rule digit_value_digit) simp
    from False have "fmt_d n = fmt_d (n div 10) @ [''0123456789'' ! (n mod 10)]"
      by (subst fmt_d.simps) simp
    with 1 False d show ?thesis
      by (simp add: read_digits_snoc)
  qed
qed

lemma fmt_d_leading:
  "fmt_d n \<noteq> [] \<and> (0 < n \<longrightarrow> hd (fmt_d n) \<noteq> CHR ''0'')"
proof (induction n rule: fmt_d.induct)
  case (1 n)
  show ?case
  proof (cases "n < 10")
    case True
    then show ?thesis
      using digit_zero [of n] by (auto simp: fmt_d_digit)
  next
    case False
    then have e: "fmt_d n = fmt_d (n div 10) @ [''0123456789'' ! (n mod 10)]"
      by (subst fmt_d.simps) simp
    from False have "0 < n div 10" by simp
    with 1 False e show ?thesis by simp
  qed
qed

lemma read_decimal_fmt_d: "read_decimal (fmt_d n) = Some n"
proof (cases "n < 10")
  case True
  then show ?thesis
    by (simp add: fmt_d_digit digit_value_digit)
next
  case False
  then have e: "fmt_d n = fmt_d (n div 10) @ [''0123456789'' ! (n mod 10)]"
    by (subst fmt_d.simps) simp
  from False have pos: "0 < n div 10" by simp
  from fmt_d_leading [of "n div 10"] pos obtain c cs where
    f: "fmt_d (n div 10) = c # cs" and c: "c \<noteq> CHR ''0''"
    by (cases "fmt_d (n div 10)") auto
  from e f have s: "fmt_d n = c # (cs @ [''0123456789'' ! (n mod 10)])"
    by simp
  obtain y ys where ys: "cs @ [''0123456789'' ! (n mod 10)] = y # ys"
    by (cases "cs @ [''0123456789'' ! (n mod 10)]") auto
  have "read_decimal (c # y # ys) = read_digits 0 (c # y # ys)"
    using c by simp
  with s ys read_digits_fmt_d [of n] show ?thesis by simp
qed

lemma fmt_d_12: "fmt_d 12 = ''12''"
  by (simp add: fmt_d.simps)

lemma memory_client_list_A:
  "vmi_List memory_client ns (Selector scenario_A) (map instance_A names)
   = (Inr \<lparr>Items = map instance_A names\<rparr>, map instance_A names)"
  by (simp add: memory_client_def Selector_def scenario_A_def instance_A_def labelPrefix_def)

lemma sublist_mention: "sublist field (pre @ field @ post)"
  by (auto simp: sublist_def)

lemma Create_calls:
  "calls (snd (Create client ns vmi s)) = calls s @ [Create_call ns vmi]"
  by (simp add: Create_def split: prod.splits)

lemma Create_result:
  "fst (Create client ns vmi s) = fst (vmi_Create client ns vmi (cluster s))"
  by (simp add: Create_def split: prod.splits)

text \<open>The five outcomes of CreateJobVM's checks, in the order the code makes them.\<close>

lemma CreateJobVM_cpu_request_fails:
  assumes "ParseQuantity lib (CPURequest jctx) = Inl err"
  shows "CreateJobVM lib client jctx s
          = (Inl (wrapError (''parsing '' @ ''cpu.request'' @ '': '' @ Error err) err), s)"
  using assms by (simp add: CreateJobVM_def Errorf_w_def)

lemma CreateJobVM_cpu_limit_fails:
  assumes "ParseQuantity lib (CPURequest jctx) = Inr q1"
    and "ParseQuantity lib (CPULimit jctx) = Inl err"
  shows "CreateJobVM lib client jctx s
          = (Inl (wrapError (''parsing '' @ ''cpu.limit'' @ '': '' @ Error err) err), s)"
  using assms by (simp add: CreateJobVM_def Errorf_w_def)

lemma CreateJobVM_memory_request_fails:
  assumes "ParseQuantity lib (CPURequest jctx) = Inr q1"
    and "ParseQuantity lib (CPULimit jctx) = Inr q2"
    and "ParseQuantity lib (MemoryRequest jctx) = Inl err"
  shows "CreateJobVM lib client jctx s
          = (Inl (wrapError (''parsing '' @ ''memory.request'' @ '': '' @ Error err) err), s)"
  using assms by (simp add: CreateJobVM_def Errorf_w_def)

lemma CreateJobVM_memory_limit_fails:
  assumes "ParseQuantity lib (CPURequest jctx) = Inr q1"
    and "ParseQuantity lib (CPULimit jctx) = Inr q2"
    and "ParseQuantity lib (MemoryRequest jctx) = Inr q3"
    and "ParseQuantity lib (MemoryLimit jctx) = Inl err"
  shows "CreateJobVM lib client jctx s
          = (Inl (wrapError (''parsing '' @ ''memory.limit'' @ '': '' @ Error err) err), s)"
  using assms by (simp add: CreateJobVM_def Errorf_w_def)

lemma CreateJobVM_no_image:
  assumes "ParseQuantity lib (CPURequest jctx) = Inr q1"
    and "ParseQuantity lib (CPULimit jctx) = Inr q2"
    and "ParseQuantity lib (MemoryRequest jctx) = Inr q3"
    and "ParseQuantity lib (MemoryLimit jctx) = Inr q4"
    and "Image_jctx jctx = ''''"
  shows "CreateJobVM lib client jctx s
          = (Inl (errorString ''must specify a containerdisk image''), s)"
  using assms by (simp add: CreateJobVM_def)

lemma CreateJobVM_valid:
  assumes "ParseQuantity lib (CPURequest jctx) = Inr cpuReq"
    and "ParseQuantity lib (CPULimit jctx) = Inr cpuLim"
    and "ParseQuantity lib (MemoryRequest jctx) = Inr memReq"
    and "ParseQuantity lib (MemoryLimit jctx) = Inr memLim"
    and "Image_jctx jctx \<noteq> ''''"
  shows "CreateJobVM lib client jctx s =
    Create client (Namespace jctx)
      \<lparr>TypeMeta =
         \<lparr>APIVersion = GroupVersion_String lib, Kind = VirtualMachineInstance_Kind lib\<rparr>,
       ObjectMeta =
         \<lparr>ObjectMeta_Name = '''', GenerateName = BaseName jctx,
          Labels = [labelPrefix @ ''/id'' \<mapsto> ID jctx]\<rparr>,
       Spec =
         \<lparr>Spec_Domain =
            \<lparr>Resources =
               \<lparr>Requests = [ResourceCPU \<mapsto> cpuReq, ResourceMemory \<mapsto> memReq],
                Limits = [ResourceCPU \<mapsto> cpuLim, ResourceMemory \<mapsto> memLim]\<rparr>,
             Machine = Some \<lparr>Machine_Type = MachineType jctx\<rparr>,
             Devices = \<lparr>Disks = [\<lparr>Disk_Name = ''root''\<rparr>]\<rparr>\<rparr>,
          Volumes =
            [\<lparr>Volume_Name = ''root'',
              VolumeSource =
                \<lparr>ContainerDisk =
                   Some \<lparr>ContainerDisk_Image = Image_jctx jctx,
                         ContainerDisk_ImagePullPolicy = ImagePullPolicy jctx\<rparr>\<rparr>\<rparr>]\<rparr>\<rparr> s"
  using assms by (simp add: CreateJobVM_def Let_def)

lemma scenario_A_valid:
  "ParseQuantity test_library (CPURequest scenario_A) = Inr ''250m''"
  "ParseQuantity test_library (CPULimit scenario_A) = Inr ''500m''"
  "ParseQuantity test_library (MemoryRequest scenario_A) = Inr ''256Mi''"
  "ParseQuantity test_library (MemoryLimit scenario_A) = Inr ''512Mi''"
  "Image_jctx scenario_A \<noteq> ''''"
  by (simp_all add: test_library_def scenario_A_def)

section \<open>The identity filter\<close>

text \<open>
  C5. The Selector is a function of the context's ID alone: the filter string is the
  fixed prefix, \<open>/id=\<close> and the ID, verbatim; contexts with the same ID get the same
  filter, and contexts with different IDs get different filters.
\<close>

theorem Selector_injective:
  "Selector j = \<lparr>LabelSelector = ''gitlab-runner-kubevirt.snai.pe/id='' @ ID j\<rparr>
   \<and> (ID j = ID j' \<longrightarrow> Selector j = Selector j')
   \<and> (ID j \<noteq> ID j' \<longrightarrow> Selector j \<noteq> Selector j')"
  by (simp add: Selector_def labelPrefix_def)

theorem Selector_injective_witness:
  "ID scenario_A \<noteq> ID (scenario_A\<lparr>ID := ''job-2''\<rparr>)
   \<and> Selector scenario_A \<noteq> Selector (scenario_A\<lparr>ID := ''job-2''\<rparr>)
   \<and> ID scenario_A = ID (scenario_A\<lparr>Namespace := ''other''\<rparr>)
   \<and> Selector scenario_A = Selector (scenario_A\<lparr>Namespace := ''other''\<rparr>)
   \<and> Selector scenario_A = \<lparr>LabelSelector = ''gitlab-runner-kubevirt.snai.pe/id=job-1''\<rparr>"
  using Selector_injective [of scenario_A "scenario_A\<lparr>ID := ''job-2''\<rparr>"]
    Selector_injective [of scenario_A "scenario_A\<lparr>Namespace := ''other''\<rparr>"]
  by (simp add: scenario_A_def Selector_def labelPrefix_def)

section \<open>The Locator\<close>

text \<open>
  C1. Whatever list the cluster's listing call returns, FindJobVM classifies it by its
  length: an empty list gives the error "Virtual Machine instance disappeared while the
  job was running!" (the spec's InstanceVanished); a list of exactly one instance gives
  that instance, as it is in the list; a list of two or more gives the error "Virtual
  Machine instance has ambiguous ID!" (the spec's AmbiguousInstance) and never an
  instance. The message of that error holds the context's ID and the number of matches
  as a decimal numeral: the digits printed there read back as exactly the length of
  the list, whatever that length is.
\<close>

theorem FindJobVM_classifies:
  assumes "vmi_List client (Namespace jctx) (Selector jctx) (cluster s) = (Inr list, c')"
  shows "(Items list = [] \<longrightarrow>
            fst (FindJobVM client jctx s) =
              Inl (errorString ''Virtual Machine instance disappeared while the job was running!''))
       \<and> (\<forall>vmi. Items list = [vmi] \<longrightarrow> fst (FindJobVM client jctx s) = Inr vmi)
       \<and> (2 \<le> length (Items list) \<longrightarrow>
            fst (FindJobVM client jctx s) =
              Inl (errorString (''Virtual Machine instance has ambiguous ID! ''
                     @ fmt_d (length (Items list)) @ '' instances found with ID '' @ ID jctx))
            \<and> read_decimal (fmt_d (length (Items list))) = Some (length (Items list))
            \<and> (\<exists>digits. Error (errorString (''Virtual Machine instance has ambiguous ID! ''
                     @ fmt_d (length (Items list)) @ '' instances found with ID '' @ ID jctx)
                     :: 'e error)
                  = ''Virtual Machine instance has ambiguous ID! '' @ digits
                     @ '' instances found with ID '' @ ID jctx
                \<and> read_decimal digits = Some (length (Items list))))"
proof -
  have count: "read_decimal (fmt_d (length (Items list))) = Some (length (Items list))"
    by (rule read_decimal_fmt_d)
  have branches: "(Items list = [] \<longrightarrow>
            fst (FindJobVM client jctx s) =
              Inl (errorString ''Virtual Machine instance disappeared while the job was running!''))
       \<and> (\<forall>vmi. Items list = [vmi] \<longrightarrow> fst (FindJobVM client jctx s) = Inr vmi)
       \<and> (2 \<le> length (Items list) \<longrightarrow>
            fst (FindJobVM client jctx s) =
              Inl (errorString (''Virtual Machine instance has ambiguous ID! ''
                     @ fmt_d (length (Items list)) @ '' instances found with ID '' @ ID jctx)))"
    using assms by (simp add: FindJobVM_def List_vmi_def)
  have read: "\<exists>digits. Error (errorString (''Virtual Machine instance has ambiguous ID! ''
                     @ fmt_d (length (Items list)) @ '' instances found with ID '' @ ID jctx)
                     :: 'e error)
                  = ''Virtual Machine instance has ambiguous ID! '' @ digits
                     @ '' instances found with ID '' @ ID jctx
                \<and> read_decimal digits = Some (length (Items list))"
    using count by (intro exI [of _ "fmt_d (length (Items list))"]) simp
  from branches count read show ?thesis by blast
qed

theorem FindJobVM_classifies_witness:
  "vmi_List memory_client (Namespace scenario_A) (Selector scenario_A) (cluster (holding []))
     = (Inr \<lparr>Items = []\<rparr>, [])
   \<and> fst (FindJobVM memory_client scenario_A (holding [])) =
       Inl (errorString ''Virtual Machine instance disappeared while the job was running!'')
   \<and> vmi_List memory_client (Namespace scenario_A) (Selector scenario_A)
         (cluster (holding [instance_A ''runner-0'']))
       = (Inr \<lparr>Items = [instance_A ''runner-0'']\<rparr>, [instance_A ''runner-0''])
   \<and> fst (FindJobVM memory_client scenario_A (holding [instance_A ''runner-0''])) =
       Inr (instance_A ''runner-0'')
   \<and> vmi_List memory_client (Namespace scenario_A) (Selector scenario_A)
         (cluster (holding [instance_A ''runner-0'', instance_A ''runner-1'']))
       = (Inr \<lparr>Items = [instance_A ''runner-0'', instance_A ''runner-1'']\<rparr>,
          [instance_A ''runner-0'', instance_A ''runner-1''])
   \<and> fst (FindJobVM memory_client scenario_A
         (holding [instance_A ''runner-0'', instance_A ''runner-1''])) =
       Inl (errorString
         ''Virtual Machine instance has ambiguous ID! 2 instances found with ID job-1'')
   \<and> read_decimal ''2'' = Some 2
   \<and> vmi_List memory_client (Namespace scenario_A) (Selector scenario_A)
         (cluster (holding a_dozen))
       = (Inr \<lparr>Items = a_dozen\<rparr>, a_dozen)
   \<and> length a_dozen = 12
   \<and> fst (FindJobVM memory_client scenario_A (holding a_dozen)) =
       Inl (errorString
         ''Virtual Machine instance has ambiguous ID! 12 instances found with ID job-1'')
   \<and> read_decimal ''12'' = Some 12"
proof -
  have l0: "vmi_List memory_client (Namespace scenario_A) (Selector scenario_A)
      (cluster (holding [])) = (Inr \<lparr>Items = []\<rparr>, [])"
    using memory_client_list_A [of _ "[]"] by (simp add: holding_def)
  have l1: "vmi_List memory_client (Namespace scenario_A) (Selector scenario_A)
         (cluster (holding [instance_A ''runner-0'']))
       = (Inr \<lparr>Items = [instance_A ''runner-0'']\<rparr>, [instance_A ''runner-0''])"
    using memory_client_list_A [of _ "[''runner-0'']"] by (simp add: holding_def)
  have l2: "vmi_List memory_client (Namespace scenario_A) (Selector scenario_A)
         (cluster (holding [instance_A ''runner-0'', instance_A ''runner-1'']))
       = (Inr \<lparr>Items = [instance_A ''runner-0'', instance_A ''runner-1'']\<rparr>,
          [instance_A ''runner-0'', instance_A ''runner-1''])"
    using memory_client_list_A [of _ "[''runner-0'', ''runner-1'']"] by (simp add: holding_def)
  have l12: "vmi_List memory_client (Namespace scenario_A) (Selector scenario_A)
         (cluster (holding a_dozen)) = (Inr \<lparr>Items = a_dozen\<rparr>, a_dozen)"
  proof -
    have c: "\<And>xs :: string VirtualMachineInstance list. cluster (holding xs) = xs"
      by (simp add: holding_def)
    show ?thesis unfolding c a_dozen_def by (rule memory_client_list_A)
  qed
  have n12: "length a_dozen = 12" by (simp add: a_dozen_def)
  have id: "ID scenario_A = ''job-1''" by (simp add: scenario_A_def)
  have few: "fst (FindJobVM memory_client scenario_A (holding [])) =
       Inl (errorString ''Virtual Machine instance disappeared while the job was running!'')
     \<and> fst (FindJobVM memory_client scenario_A (holding [instance_A ''runner-0''])) =
       Inr (instance_A ''runner-0'')
     \<and> fst (FindJobVM memory_client scenario_A
         (holding [instance_A ''runner-0'', instance_A ''runner-1''])) =
       Inl (errorString
         ''Virtual Machine instance has ambiguous ID! 2 instances found with ID job-1'')
     \<and> read_decimal ''2'' = Some 2"
    using FindJobVM_classifies [OF l0] FindJobVM_classifies [OF l1]
      FindJobVM_classifies [OF l2]
    by (simp add: id fmt_d_digit)
  have many: "fst (FindJobVM memory_client scenario_A (holding a_dozen)) =
       Inl (errorString
         ''Virtual Machine instance has ambiguous ID! 12 instances found with ID job-1'')
     \<and> read_decimal ''12'' = Some 12"
    using FindJobVM_classifies [OF l12] by (simp add: id n12 fmt_d_12)
  from l0 l1 l2 l12 n12 few many show ?thesis by simp
qed

section \<open>The Provisioner\<close>

text \<open>
  C2. When the four quantity strings parse and the image is not empty, CreateJobVM makes
  exactly one call to the cluster, a creation in the context's namespace, and the
  descriptor it submits carries the identity label with the context's ID as its value,
  requests made of the parsed CPURequest and MemoryRequest, and limits made of the parsed
  CPULimit and MemoryLimit.
\<close>

theorem CreateJobVM_request:
  assumes "ParseQuantity lib (CPURequest jctx) = Inr cpuReq"
    and "ParseQuantity lib (CPULimit jctx) = Inr cpuLim"
    and "ParseQuantity lib (MemoryRequest jctx) = Inr memReq"
    and "ParseQuantity lib (MemoryLimit jctx) = Inr memLim"
    and "Image_jctx jctx \<noteq> ''''"
  shows "\<exists>vmi. calls (snd (CreateJobVM lib client jctx s))
                 = calls s @ [Create_call (Namespace jctx) vmi]
           \<and> Labels (ObjectMeta vmi) ''gitlab-runner-kubevirt.snai.pe/id'' = Some (ID jctx)
           \<and> Requests (Resources (Spec_Domain (Spec vmi)))
               = [ResourceCPU \<mapsto> cpuReq, ResourceMemory \<mapsto> memReq]
           \<and> Limits (Resources (Spec_Domain (Spec vmi)))
               = [ResourceCPU \<mapsto> cpuLim, ResourceMemory \<mapsto> memLim]"
  by (simp add: CreateJobVM_valid [OF assms] Create_calls labelPrefix_def)

theorem CreateJobVM_request_witness:
  "ParseQuantity test_library (CPURequest scenario_A) = Inr ''250m''
   \<and> ParseQuantity test_library (CPULimit scenario_A) = Inr ''500m''
   \<and> ParseQuantity test_library (MemoryRequest scenario_A) = Inr ''256Mi''
   \<and> ParseQuantity test_library (MemoryLimit scenario_A) = Inr ''512Mi''
   \<and> Image_jctx scenario_A \<noteq> ''''
   \<and> (\<exists>vmi. calls (snd (CreateJobVM test_library memory_client scenario_A (holding [])))
                 = [Create_call (Namespace scenario_A) vmi]
           \<and> Labels (ObjectMeta vmi) ''gitlab-runner-kubevirt.snai.pe/id''
               = Some (ID scenario_A)
           \<and> Requests (Resources (Spec_Domain (Spec vmi)))
               = [ResourceCPU \<mapsto> ''250m'', ResourceMemory \<mapsto> ''256Mi'']
           \<and> Limits (Resources (Spec_Domain (Spec vmi)))
               = [ResourceCPU \<mapsto> ''500m'', ResourceMemory \<mapsto> ''512Mi''])"
  using scenario_A_valid
    CreateJobVM_request [OF scenario_A_valid, of memory_client "holding []"]
  by (simp add: holding_def)

text \<open>
  C4, as the code has it. With an empty image CreateJobVM always fails without calling
  the cluster; the error is "must specify a containerdisk image" (the spec's
  MissingImage) when the four quantity strings parse.
\<close>

theorem CreateJobVM_missing_image:
  assumes "Image_jctx jctx = ''''"
  shows "(\<exists>err. CreateJobVM lib client jctx s = (Inl err, s))
       \<and> ((\<exists>q1 q2 q3 q4.
              ParseQuantity lib (CPURequest jctx) = Inr q1
            \<and> ParseQuantity lib (CPULimit jctx) = Inr q2
            \<and> ParseQuantity lib (MemoryRequest jctx) = Inr q3
            \<and> ParseQuantity lib (MemoryLimit jctx) = Inr q4) \<longrightarrow>
           CreateJobVM lib client jctx s
             = (Inl (errorString ''must specify a containerdisk image''), s))"
  using assms
  by (cases "ParseQuantity lib (CPURequest jctx)";
      cases "ParseQuantity lib (CPULimit jctx)";
      cases "ParseQuantity lib (MemoryRequest jctx)";
      cases "ParseQuantity lib (MemoryLimit jctx)")
     (simp_all add: CreateJobVM_def)

theorem CreateJobVM_missing_image_witness:
  "Image_jctx (scenario_A\<lparr>Image_jctx := ''''\<rparr>) = ''''
   \<and> ParseQuantity test_library (CPURequest (scenario_A\<lparr>Image_jctx := ''''\<rparr>)) = Inr ''250m''
   \<and> ParseQuantity test_library (CPULimit (scenario_A\<lparr>Image_jctx := ''''\<rparr>)) = Inr ''500m''
   \<and> ParseQuantity test_library (MemoryRequest (scenario_A\<lparr>Image_jctx := ''''\<rparr>)) = Inr ''256Mi''
   \<and> ParseQuantity test_library (MemoryLimit (scenario_A\<lparr>Image_jctx := ''''\<rparr>)) = Inr ''512Mi''
   \<and> CreateJobVM test_library memory_client (scenario_A\<lparr>Image_jctx := ''''\<rparr>) (holding [])
       = (Inl (errorString ''must specify a containerdisk image''), holding [])"
  using scenario_A_valid
    CreateJobVM_missing_image [of "scenario_A\<lparr>Image_jctx := ''''\<rparr>" test_library
      memory_client "holding []"]
  by simp

text \<open>
  The claim C4 as the spec states it fails: scenario B's context with an empty image
  does not get the MissingImage error, but the error of its malformed CPU request.
\<close>

theorem CreateJobVM_missing_image_counterexample:
  "Image_jctx (scenario_B\<lparr>Image_jctx := ''''\<rparr>) = ''''
   \<and> fst (CreateJobVM test_library memory_client (scenario_B\<lparr>Image_jctx := ''''\<rparr>) (holding []))
       = Inl (wrapError ''parsing cpu.request: quantities must match the regular expression''
               (Foreign ''ErrFormatWrong'' ''quantities must match the regular expression''))
   \<and> fst (CreateJobVM test_library memory_client (scenario_B\<lparr>Image_jctx := ''''\<rparr>) (holding []))
       \<noteq> Inl (errorString ''must specify a containerdisk image'')"
  by (simp add: CreateJobVM_def Errorf_w_def scenario_B_def scenario_A_def test_library_def)

text \<open>
  C3. When any of the four quantity strings fails to parse, CreateJobVM returns an error
  for one of the fields that failed: its message is "parsing", the field's name (one of
  cpu.request, cpu.limit, memory.request, memory.limit) and the parser's message, so it
  mentions the field; it wraps the parser's error; and the session comes back as it was,
  with no call to the cluster. A malformed CPURequest gives the error that names
  cpu.request.
\<close>

theorem CreateJobVM_bad_quantity:
  assumes "(\<exists>err. ParseQuantity lib (CPURequest jctx) = Inl err)
         \<or> (\<exists>err. ParseQuantity lib (CPULimit jctx) = Inl err)
         \<or> (\<exists>err. ParseQuantity lib (MemoryRequest jctx) = Inl err)
         \<or> (\<exists>err. ParseQuantity lib (MemoryLimit jctx) = Inl err)"
  shows "(\<exists>field err.
            (field, Inl err) \<in> set
               [(''cpu.request'', ParseQuantity lib (CPURequest jctx)),
                (''cpu.limit'', ParseQuantity lib (CPULimit jctx)),
                (''memory.request'', ParseQuantity lib (MemoryRequest jctx)),
                (''memory.limit'', ParseQuantity lib (MemoryLimit jctx))]
          \<and> CreateJobVM lib client jctx s
              = (Inl (wrapError (''parsing '' @ field @ '': '' @ Error err) err), s)
          \<and> sublist field (Error (wrapError (''parsing '' @ field @ '': '' @ Error err) err))
          \<and> Unwrap (wrapError (''parsing '' @ field @ '': '' @ Error err) err) = Some err)
       \<and> (\<forall>err. ParseQuantity lib (CPURequest jctx) = Inl err \<longrightarrow>
            CreateJobVM lib client jctx s
              = (Inl (wrapError (''parsing cpu.request: '' @ Error err) err), s))"
proof
  let ?fields =
    "[(''cpu.request'', ParseQuantity lib (CPURequest jctx)),
      (''cpu.limit'', ParseQuantity lib (CPULimit jctx)),
      (''memory.request'', ParseQuantity lib (MemoryRequest jctx)),
      (''memory.limit'', ParseQuantity lib (MemoryLimit jctx))]"
  have named: "\<exists>field err. (field, Inl err) \<in> set ?fields
      \<and> CreateJobVM lib client jctx s
          = (Inl (wrapError (''parsing '' @ field @ '': '' @ Error err) err), s)"
  proof (cases "ParseQuantity lib (CPURequest jctx)")
    case (Inl err)
    from CreateJobVM_cpu_request_fails [OF Inl] Inl show ?thesis
      by (intro exI [of _ "''cpu.request''"] exI [of _ err]) simp
  next
    case q1: (Inr q1)
    show ?thesis
    proof (cases "ParseQuantity lib (CPULimit jctx)")
      case (Inl err)
      from CreateJobVM_cpu_limit_fails [OF q1 Inl] Inl show ?thesis
        by (intro exI [of _ "''cpu.limit''"] exI [of _ err]) simp
    next
      case q2: (Inr q2)
      show ?thesis
      proof (cases "ParseQuantity lib (MemoryRequest jctx)")
        case (Inl err)
        from CreateJobVM_memory_request_fails [OF q1 q2 Inl] Inl show ?thesis
          by (intro exI [of _ "''memory.request''"] exI [of _ err]) simp
      next
        case q3: (Inr q3)
        from assms q1 q2 q3 obtain err where
          bad: "ParseQuantity lib (MemoryLimit jctx) = Inl err"
          by auto
        from CreateJobVM_memory_limit_fails [OF q1 q2 q3 bad] bad show ?thesis
          by (intro exI [of _ "''memory.limit''"] exI [of _ err]) simp
      qed
    qed
  qed
  then obtain field err where
    f: "(field, Inl err) \<in> set ?fields"
    and r: "CreateJobVM lib client jctx s
          = (Inl (wrapError (''parsing '' @ field @ '': '' @ Error err) err), s)"
    by blast
  have "sublist field (Error (wrapError (''parsing '' @ field @ '': '' @ Error err) err))"
    using sublist_mention [of field "''parsing ''" "'': '' @ Error err"] by simp
  with f r show "\<exists>field err. (field, Inl err) \<in> set ?fields
      \<and> CreateJobVM lib client jctx s
          = (Inl (wrapError (''parsing '' @ field @ '': '' @ Error err) err), s)
      \<and> sublist field (Error (wrapError (''parsing '' @ field @ '': '' @ Error err) err))
      \<and> Unwrap (wrapError (''parsing '' @ field @ '': '' @ Error err) err) = Some err"
    by (intro exI [of _ field] exI [of _ err]) simp
next
  show "\<forall>err. ParseQuantity lib (CPURequest jctx) = Inl err \<longrightarrow>
            CreateJobVM lib client jctx s
              = (Inl (wrapError (''parsing cpu.request: '' @ Error err) err), s)"
    using CreateJobVM_cpu_request_fails [of lib jctx _ client s] by simp
qed

theorem CreateJobVM_bad_quantity_witness:
  "((\<exists>err. ParseQuantity test_library (CPURequest scenario_B) = Inl err)
         \<or> (\<exists>err. ParseQuantity test_library (CPULimit scenario_B) = Inl err)
         \<or> (\<exists>err. ParseQuantity test_library (MemoryRequest scenario_B) = Inl err)
         \<or> (\<exists>err. ParseQuantity test_library (MemoryLimit scenario_B) = Inl err))
   \<and> CreateJobVM test_library memory_client scenario_B (holding [])
      = (Inl (wrapError ''parsing cpu.request: quantities must match the regular expression''
               (Foreign ''ErrFormatWrong'' ''quantities must match the regular expression'')),
         holding [])"
proof -
  have p: "ParseQuantity test_library (CPURequest scenario_B)
      = Inl (Foreign ''ErrFormatWrong'' ''quantities must match the regular expression'')"
    by (simp add: scenario_B_def test_library_def scenario_A_def)
  have h: "(\<exists>err. ParseQuantity test_library (CPURequest scenario_B) = Inl err)
         \<or> (\<exists>err. ParseQuantity test_library (CPULimit scenario_B) = Inl err)
         \<or> (\<exists>err. ParseQuantity test_library (MemoryRequest scenario_B) = Inl err)
         \<or> (\<exists>err. ParseQuantity test_library (MemoryLimit scenario_B) = Inl err)"
    using p by simp
  show ?thesis
    using h p CreateJobVM_bad_quantity [OF h, of memory_client "holding []"]
    by simp
qed

text \<open>
  C9. The checks of CreateJobVM have a fixed order: CPURequest, CPULimit, MemoryRequest,
  MemoryLimit, then the image. The error names the first field of that order that does
  not parse, whatever the later fields hold; the missing-image error comes only when
  all four parse; a context with a malformed quantity and an empty image never gets the
  missing-image error.
\<close>

theorem CreateJobVM_precedence:
  "(\<forall>err. ParseQuantity lib (CPURequest jctx) = Inl err \<longrightarrow>
      fst (CreateJobVM lib client jctx s)
        = Inl (wrapError (''parsing cpu.request: '' @ Error err) err))
   \<and> (\<forall>q1 err. ParseQuantity lib (CPURequest jctx) = Inr q1
          \<and> ParseQuantity lib (CPULimit jctx) = Inl err \<longrightarrow>
      fst (CreateJobVM lib client jctx s)
        = Inl (wrapError (''parsing cpu.limit: '' @ Error err) err))
   \<and> (\<forall>q1 q2 err. ParseQuantity lib (CPURequest jctx) = Inr q1
          \<and> ParseQuantity lib (CPULimit jctx) = Inr q2
          \<and> ParseQuantity lib (MemoryRequest jctx) = Inl err \<longrightarrow>
      fst (CreateJobVM lib client jctx s)
        = Inl (wrapError (''parsing memory.request: '' @ Error err) err))
   \<and> (\<forall>q1 q2 q3 err. ParseQuantity lib (CPURequest jctx) = Inr q1
          \<and> ParseQuantity lib (CPULimit jctx) = Inr q2
          \<and> ParseQuantity lib (MemoryRequest jctx) = Inr q3
          \<and> ParseQuantity lib (MemoryLimit jctx) = Inl err \<longrightarrow>
      fst (CreateJobVM lib client jctx s)
        = Inl (wrapError (''parsing memory.limit: '' @ Error err) err))
   \<and> (\<forall>q1 q2 q3 q4. ParseQuantity lib (CPURequest jctx) = Inr q1
          \<and> ParseQuantity lib (CPULimit jctx) = Inr q2
          \<and> ParseQuantity lib (MemoryRequest jctx) = Inr q3
          \<and> ParseQuantity lib (MemoryLimit jctx) = Inr q4
          \<and> Image_jctx jctx = '''' \<longrightarrow>
      fst (CreateJobVM lib client jctx s)
        = Inl (errorString ''must specify a containerdisk image''))
   \<and> (((\<exists>err. ParseQuantity lib (CPURequest jctx) = Inl err)
         \<or> (\<exists>err. ParseQuantity lib (CPULimit jctx) = Inl err)
         \<or> (\<exists>err. ParseQuantity lib (MemoryRequest jctx) = Inl err)
         \<or> (\<exists>err. ParseQuantity lib (MemoryLimit jctx) = Inl err))
        \<and> Image_jctx jctx = '''' \<longrightarrow>
      fst (CreateJobVM lib client jctx s)
        \<noteq> Inl (errorString ''must specify a containerdisk image''))"
  by (cases "ParseQuantity lib (CPURequest jctx)";
      cases "ParseQuantity lib (CPULimit jctx)";
      cases "ParseQuantity lib (MemoryRequest jctx)";
      cases "ParseQuantity lib (MemoryLimit jctx)")
     (simp_all add: CreateJobVM_def Errorf_w_def)

theorem CreateJobVM_precedence_witness:
  "fst (CreateJobVM test_library memory_client
          (scenario_A\<lparr>CPURequest := ''not-a-quantity'', MemoryLimit := ''not-a-quantity'',
                       Image_jctx := ''''\<rparr>) (holding []))
     = Inl (wrapError ''parsing cpu.request: quantities must match the regular expression''
             (Foreign ''ErrFormatWrong'' ''quantities must match the regular expression''))
   \<and> fst (CreateJobVM test_library memory_client
          (scenario_A\<lparr>CPULimit := ''not-a-quantity'', MemoryRequest := ''not-a-quantity''\<rparr>)
          (holding []))
     = Inl (wrapError ''parsing cpu.limit: quantities must match the regular expression''
             (Foreign ''ErrFormatWrong'' ''quantities must match the regular expression''))
   \<and> fst (CreateJobVM test_library memory_client
          (scenario_A\<lparr>MemoryRequest := ''not-a-quantity'', MemoryLimit := ''not-a-quantity''\<rparr>)
          (holding []))
     = Inl (wrapError ''parsing memory.request: quantities must match the regular expression''
             (Foreign ''ErrFormatWrong'' ''quantities must match the regular expression''))
   \<and> fst (CreateJobVM test_library memory_client
          (scenario_A\<lparr>MemoryLimit := ''not-a-quantity'', Image_jctx := ''''\<rparr>) (holding []))
     = Inl (wrapError ''parsing memory.limit: quantities must match the regular expression''
             (Foreign ''ErrFormatWrong'' ''quantities must match the regular expression''))
   \<and> fst (CreateJobVM test_library memory_client (scenario_A\<lparr>Image_jctx := ''''\<rparr>)
          (holding []))
     = Inl (errorString ''must specify a containerdisk image'')"
  using
    CreateJobVM_precedence [of test_library
      "scenario_A\<lparr>CPURequest := ''not-a-quantity'', MemoryLimit := ''not-a-quantity'',
                   Image_jctx := ''''\<rparr>" memory_client "holding []"]
    CreateJobVM_precedence [of test_library
      "scenario_A\<lparr>CPULimit := ''not-a-quantity'', MemoryRequest := ''not-a-quantity''\<rparr>"
      memory_client "holding []"]
    CreateJobVM_precedence [of test_library
      "scenario_A\<lparr>MemoryRequest := ''not-a-quantity'', MemoryLimit := ''not-a-quantity''\<rparr>"
      memory_client "holding []"]
    CreateJobVM_precedence [of test_library
      "scenario_A\<lparr>MemoryLimit := ''not-a-quantity'', Image_jctx := ''''\<rparr>"
      memory_client "holding []"]
    CreateJobVM_precedence [of test_library "scenario_A\<lparr>Image_jctx := ''''\<rparr>"
      memory_client "holding []"]
  by (simp add: test_library_def scenario_A_def)

text \<open>
  C6. For a valid context, the descriptor CreateJobVM submits has the context's BaseName
  as its GenerateName and no name of its own, a machine whose type is the context's
  MachineType, one disk named root, and one volume, named root, whose source is a
  container disk with the context's Image and ImagePullPolicy. Its only label is
  \<open>gitlab-runner-kubevirt.snai.pe/id\<close> with the context's ID, and the Selector's filter
  string is that label's key, \<open>=\<close> and its value.
\<close>

theorem CreateJobVM_descriptor:
  assumes "ParseQuantity lib (CPURequest jctx) = Inr cpuReq"
    and "ParseQuantity lib (CPULimit jctx) = Inr cpuLim"
    and "ParseQuantity lib (MemoryRequest jctx) = Inr memReq"
    and "ParseQuantity lib (MemoryLimit jctx) = Inr memLim"
    and "Image_jctx jctx \<noteq> ''''"
  shows "\<exists>vmi. calls (snd (CreateJobVM lib client jctx s))
                 = calls s @ [Create_call (Namespace jctx) vmi]
           \<and> GenerateName (ObjectMeta vmi) = BaseName jctx
           \<and> ObjectMeta_Name (ObjectMeta vmi) = ''''
           \<and> Machine (Spec_Domain (Spec vmi)) = Some \<lparr>Machine_Type = MachineType jctx\<rparr>
           \<and> Disks (Devices (Spec_Domain (Spec vmi))) = [\<lparr>Disk_Name = ''root''\<rparr>]
           \<and> Volumes (Spec vmi) =
               [\<lparr>Volume_Name = ''root'',
                 VolumeSource =
                   \<lparr>ContainerDisk =
                      Some \<lparr>ContainerDisk_Image = Image_jctx jctx,
                            ContainerDisk_ImagePullPolicy = ImagePullPolicy jctx\<rparr>\<rparr>\<rparr>]
           \<and> Labels (ObjectMeta vmi) = [''gitlab-runner-kubevirt.snai.pe/id'' \<mapsto> ID jctx]
           \<and> (\<forall>k v. Labels (ObjectMeta vmi) k = Some v \<longrightarrow>
                 LabelSelector (Selector jctx) = k @ ''='' @ v)"
  by (simp add: CreateJobVM_valid [OF assms] Create_calls labelPrefix_def Selector_def)

theorem CreateJobVM_descriptor_witness:
  "ParseQuantity test_library (CPURequest scenario_A) = Inr ''250m''
   \<and> ParseQuantity test_library (CPULimit scenario_A) = Inr ''500m''
   \<and> ParseQuantity test_library (MemoryRequest scenario_A) = Inr ''256Mi''
   \<and> ParseQuantity test_library (MemoryLimit scenario_A) = Inr ''512Mi''
   \<and> Image_jctx scenario_A \<noteq> ''''
   \<and> (\<exists>vmi. calls (snd (CreateJobVM test_library memory_client scenario_A (holding [])))
                 = [Create_call ''ci'' vmi]
           \<and> GenerateName (ObjectMeta vmi) = ''runner-''
           \<and> ObjectMeta_Name (ObjectMeta vmi) = ''''
           \<and> Machine (Spec_Domain (Spec vmi)) = Some \<lparr>Machine_Type = ''q35''\<rparr>
           \<and> Disks (Devices (Spec_Domain (Spec vmi))) = [\<lparr>Disk_Name = ''root''\<rparr>]
           \<and> Volumes (Spec vmi) =
               [\<lparr>Volume_Name = ''root'',
                 VolumeSource =
                   \<lparr>ContainerDisk =
                      Some \<lparr>ContainerDisk_Image = ''registry/test:latest'',
                            ContainerDisk_ImagePullPolicy = ''IfNotPresent''\<rparr>\<rparr>\<rparr>]
           \<and> Labels (ObjectMeta vmi) = [''gitlab-runner-kubevirt.snai.pe/id'' \<mapsto> ''job-1'']
           \<and> LabelSelector (Selector scenario_A) = ''gitlab-runner-kubevirt.snai.pe/id=job-1'')"
proof -
  from CreateJobVM_descriptor [OF scenario_A_valid, of memory_client "holding []"]
  obtain vmi where
    v: "calls (snd (CreateJobVM test_library memory_client scenario_A (holding [])))
          = calls (holding [] :: (string VirtualMachineInstance list, string) session)
            @ [Create_call (Namespace scenario_A) vmi]
        \<and> GenerateName (ObjectMeta vmi) = BaseName scenario_A
        \<and> ObjectMeta_Name (ObjectMeta vmi) = ''''
        \<and> Machine (Spec_Domain (Spec vmi)) = Some \<lparr>Machine_Type = MachineType scenario_A\<rparr>
        \<and> Disks (Devices (Spec_Domain (Spec vmi))) = [\<lparr>Disk_Name = ''root''\<rparr>]
        \<and> Volumes (Spec vmi) =
            [\<lparr>Volume_Name = ''root'',
              VolumeSource =
                \<lparr>ContainerDisk =
                   Some \<lparr>ContainerDisk_Image = Image_jctx scenario_A,
                         ContainerDisk_ImagePullPolicy = ImagePullPolicy scenario_A\<rparr>\<rparr>\<rparr>]
        \<and> Labels (ObjectMeta vmi)
            = [''gitlab-runner-kubevirt.snai.pe/id'' \<mapsto> ID scenario_A]
        \<and> (\<forall>k v. Labels (ObjectMeta vmi) k = Some v \<longrightarrow>
              LabelSelector (Selector scenario_A) = k @ ''='' @ v)"
    by blast
  from v have lab: "Labels (ObjectMeta vmi) ''gitlab-runner-kubevirt.snai.pe/id''
      = Some (ID scenario_A)"
    by simp
  from v have inv: "\<forall>k v. Labels (ObjectMeta vmi) k = Some v \<longrightarrow>
      LabelSelector (Selector scenario_A) = k @ ''='' @ v"
    by blast
  from inv lab have "LabelSelector (Selector scenario_A)
      = ''gitlab-runner-kubevirt.snai.pe/id'' @ ''='' @ ID scenario_A"
    by blast
  with v scenario_A_valid show ?thesis
    by (intro conjI exI [of _ vmi]) (simp_all add: holding_def scenario_A_def)
qed

text \<open>
  C10. CreateJobVM does not check ImagePullPolicy. Take a valid context and put any
  string in that field: the creation request is still made, its container disk carries
  that string as its pull policy, and the result is the cluster's answer to it.
\<close>

theorem CreateJobVM_pull_policy:
  assumes "ParseQuantity lib (CPURequest jctx) = Inr cpuReq"
    and "ParseQuantity lib (CPULimit jctx) = Inr cpuLim"
    and "ParseQuantity lib (MemoryRequest jctx) = Inr memReq"
    and "ParseQuantity lib (MemoryLimit jctx) = Inr memLim"
    and "Image_jctx jctx \<noteq> ''''"
  shows "\<exists>vmi. calls (snd (CreateJobVM lib client (jctx\<lparr>ImagePullPolicy := p\<rparr>) s))
                 = calls s @ [Create_call (Namespace jctx) vmi]
           \<and> map (\<lambda>v. ContainerDisk (VolumeSource v)) (Volumes (Spec vmi))
               = [Some \<lparr>ContainerDisk_Image = Image_jctx jctx,
                        ContainerDisk_ImagePullPolicy = p\<rparr>]
           \<and> fst (CreateJobVM lib client (jctx\<lparr>ImagePullPolicy := p\<rparr>) s)
               = fst (vmi_Create client (Namespace jctx) vmi (cluster s))"
proof -
  have h: "ParseQuantity lib (CPURequest (jctx\<lparr>ImagePullPolicy := p\<rparr>)) = Inr cpuReq"
    "ParseQuantity lib (CPULimit (jctx\<lparr>ImagePullPolicy := p\<rparr>)) = Inr cpuLim"
    "ParseQuantity lib (MemoryRequest (jctx\<lparr>ImagePullPolicy := p\<rparr>)) = Inr memReq"
    "ParseQuantity lib (MemoryLimit (jctx\<lparr>ImagePullPolicy := p\<rparr>)) = Inr memLim"
    "Image_jctx (jctx\<lparr>ImagePullPolicy := p\<rparr>) \<noteq> ''''"
    using assms by simp_all
  show ?thesis
    by (simp add: CreateJobVM_valid [OF h] Create_calls Create_result)
qed

theorem CreateJobVM_pull_policy_witness:
  "ParseQuantity test_library (CPURequest scenario_A) = Inr ''250m''
   \<and> ParseQuantity test_library (CPULimit scenario_A) = Inr ''500m''
   \<and> ParseQuantity test_library (MemoryRequest scenario_A) = Inr ''256Mi''
   \<and> ParseQuantity test_library (MemoryLimit scenario_A) = Inr ''512Mi''
   \<and> Image_jctx scenario_A \<noteq> ''''
   \<and> (\<exists>vmi. calls (snd (CreateJobVM test_library memory_client
                          (scenario_A\<lparr>ImagePullPolicy := ''Sometimes''\<rparr>) (holding [])))
                 = [Create_call ''ci'' vmi]
           \<and> map (\<lambda>v. ContainerDisk (VolumeSource v)) (Volumes (Spec vmi))
               = [Some \<lparr>ContainerDisk_Image = ''registry/test:latest'',
                        ContainerDisk_ImagePullPolicy = ''Sometimes''\<rparr>])
   \<and> (\<exists>vmi. calls (snd (CreateJobVM test_library memory_client
                          (scenario_A\<lparr>ImagePullPolicy := ''''\<rparr>) (holding [])))
                 = [Create_call ''ci'' vmi]
           \<and> map (\<lambda>v. ContainerDisk (VolumeSource v)) (Volumes (Spec vmi))
               = [Some \<lparr>ContainerDisk_Image = ''registry/test:latest'',
                        ContainerDisk_ImagePullPolicy = ''''\<rparr>])"
proof -
  from CreateJobVM_pull_policy [OF scenario_A_valid, of memory_client "''Sometimes''" "holding []"]
  have a: "\<exists>vmi. calls (snd (CreateJobVM test_library memory_client
                          (scenario_A\<lparr>ImagePullPolicy := ''Sometimes''\<rparr>) (holding [])))
                 = [Create_call ''ci'' vmi]
           \<and> map (\<lambda>v. ContainerDisk (VolumeSource v)) (Volumes (Spec vmi))
               = [Some \<lparr>ContainerDisk_Image = ''registry/test:latest'',
                        ContainerDisk_ImagePullPolicy = ''Sometimes''\<rparr>]"
    by (auto simp: holding_def scenario_A_def)
  from CreateJobVM_pull_policy [OF scenario_A_valid, of memory_client "''''" "holding []"]
  have b: "\<exists>vmi. calls (snd (CreateJobVM test_library memory_client
                          (scenario_A\<lparr>ImagePullPolicy := ''''\<rparr>) (holding [])))
                 = [Create_call ''ci'' vmi]
           \<and> map (\<lambda>v. ContainerDisk (VolumeSource v)) (Volumes (Spec vmi))
               = [Some \<lparr>ContainerDisk_Image = ''registry/test:latest'',
                        ContainerDisk_ImagePullPolicy = ''''\<rparr>]"
    by (auto simp: holding_def scenario_A_def)
  from a b scenario_A_valid show ?thesis by simp
qed

section \<open>Failures of the cluster and of the lookup\<close>

text \<open>
  C8. Errors of the cluster pass through. For a valid context CreateJobVM makes one
  creation call, and when that call fails its error is the result, as it is; when the
  listing call fails, its error is the result of FindJobVM, as it is, whatever the
  number of matches might have been. In both cases the call is made once.
\<close>

theorem collaborator_errors_pass_through:
  "((\<exists>q1 q2 q3 q4.
        ParseQuantity lib (CPURequest jctx) = Inr q1
      \<and> ParseQuantity lib (CPULimit jctx) = Inr q2
      \<and> ParseQuantity lib (MemoryRequest jctx) = Inr q3
      \<and> ParseQuantity lib (MemoryLimit jctx) = Inr q4)
     \<and> Image_jctx jctx \<noteq> '''' \<longrightarrow>
     (\<exists>vmi. calls (snd (CreateJobVM lib client jctx s))
               = calls s @ [Create_call (Namespace jctx) vmi]
        \<and> (\<forall>err c'. vmi_Create client (Namespace jctx) vmi (cluster s) = (Inl err, c') \<longrightarrow>
              CreateJobVM lib client jctx s
                = (Inl err, \<lparr>calls = calls s @ [Create_call (Namespace jctx) vmi],
                             cluster = c'\<rparr>))))
   \<and> (\<forall>err c'. vmi_List client (Namespace jctx) (Selector jctx) (cluster s) = (Inl err, c') \<longrightarrow>
         FindJobVM client jctx s
           = (Inl err, \<lparr>calls = calls s @ [List_call (Namespace jctx) (Selector jctx)],
                        cluster = c'\<rparr>))"
proof (intro conjI impI allI)
  assume "(\<exists>q1 q2 q3 q4.
        ParseQuantity lib (CPURequest jctx) = Inr q1
      \<and> ParseQuantity lib (CPULimit jctx) = Inr q2
      \<and> ParseQuantity lib (MemoryRequest jctx) = Inr q3
      \<and> ParseQuantity lib (MemoryLimit jctx) = Inr q4)
     \<and> Image_jctx jctx \<noteq> ''''"
  then obtain q1 q2 q3 q4 where
    h: "ParseQuantity lib (CPURequest jctx) = Inr q1"
       "ParseQuantity lib (CPULimit jctx) = Inr q2"
       "ParseQuantity lib (MemoryRequest jctx) = Inr q3"
       "ParseQuantity lib (MemoryLimit jctx) = Inr q4"
       "Image_jctx jctx \<noteq> ''''"
    by blast
  show "\<exists>vmi. calls (snd (CreateJobVM lib client jctx s))
               = calls s @ [Create_call (Namespace jctx) vmi]
        \<and> (\<forall>err c'. vmi_Create client (Namespace jctx) vmi (cluster s) = (Inl err, c') \<longrightarrow>
              CreateJobVM lib client jctx s
                = (Inl err, \<lparr>calls = calls s @ [Create_call (Namespace jctx) vmi],
                             cluster = c'\<rparr>))"
    by (simp add: CreateJobVM_valid [OF h] Create_calls) (simp add: Create_def)
next
  fix err c'
  assume "vmi_List client (Namespace jctx) (Selector jctx) (cluster s) = (Inl err, c')"
  then show "FindJobVM client jctx s
           = (Inl err, \<lparr>calls = calls s @ [List_call (Namespace jctx) (Selector jctx)],
                        cluster = c'\<rparr>)"
    by (simp add: FindJobVM_def List_vmi_def)
qed

theorem collaborator_errors_pass_through_witness:
  "ParseQuantity test_library (CPURequest scenario_A) = Inr ''250m''
   \<and> ParseQuantity test_library (CPULimit scenario_A) = Inr ''500m''
   \<and> ParseQuantity test_library (MemoryRequest scenario_A) = Inr ''256Mi''
   \<and> ParseQuantity test_library (MemoryLimit scenario_A) = Inr ''512Mi''
   \<and> Image_jctx scenario_A \<noteq> ''''
   \<and> vmi_Create (failing_client (Foreign ''Forbidden'' ''exceeded quota'')) ''ci''
        (instance_A '''') () = (Inl (Foreign ''Forbidden'' ''exceeded quota''), ())
   \<and> CreateJobVM test_library (failing_client (Foreign ''Forbidden'' ''exceeded quota''))
        scenario_A (holding ())
       = (Inl (Foreign ''Forbidden'' ''exceeded quota''),
          \<lparr>calls = [Create_call ''ci'' (instance_A '''')], cluster = ()\<rparr>)
   \<and> vmi_List (failing_client (Foreign ''Forbidden'' ''exceeded quota'')) ''ci''
        (Selector scenario_A) () = (Inl (Foreign ''Forbidden'' ''exceeded quota''), ())
   \<and> FindJobVM (failing_client (Foreign ''Forbidden'' ''exceeded quota'')) scenario_A
        (holding ())
       = (Inl (Foreign ''Forbidden'' ''exceeded quota''),
          \<lparr>calls = [List_call ''ci'' \<lparr>LabelSelector = ''gitlab-runner-kubevirt.snai.pe/id=job-1''\<rparr>],
            cluster = ()\<rparr>)"
proof -
  let ?err = "Foreign ''Forbidden'' ''exceeded quota'' :: string error"
  let ?s = "holding () :: (unit, string) session"
  note t = collaborator_errors_pass_through [of test_library scenario_A "failing_client ?err" ?s]
  have valid: "(\<exists>q1 q2 q3 q4.
        ParseQuantity test_library (CPURequest scenario_A) = Inr q1
      \<and> ParseQuantity test_library (CPULimit scenario_A) = Inr q2
      \<and> ParseQuantity test_library (MemoryRequest scenario_A) = Inr q3
      \<and> ParseQuantity test_library (MemoryLimit scenario_A) = Inr q4)
     \<and> Image_jctx scenario_A \<noteq> ''''"
    using scenario_A_valid by simp
  have fails: "\<And>ns vmi. vmi_Create (failing_client ?err) ns vmi () = (Inl ?err, ())"
    and lfails: "\<And>ns opts. vmi_List (failing_client ?err) ns opts () = (Inl ?err, ())"
    by (simp_all add: failing_client_def)
  from t valid obtain vmi where
    c: "calls (snd (CreateJobVM test_library (failing_client ?err) scenario_A ?s))
          = calls ?s @ [Create_call (Namespace scenario_A) vmi]"
    and r: "\<forall>err c'. vmi_Create (failing_client ?err) (Namespace scenario_A) vmi (cluster ?s)
                = (Inl err, c') \<longrightarrow>
              CreateJobVM test_library (failing_client ?err) scenario_A ?s
                = (Inl err, \<lparr>calls = calls ?s @ [Create_call (Namespace scenario_A) vmi],
                             cluster = c'\<rparr>)"
    by blast
  have direct: "calls (snd (CreateJobVM test_library (failing_client ?err) scenario_A ?s))
      = [Create_call ''ci'' (instance_A '''')]"
    by (simp add: CreateJobVM_def Create_def failing_client_def holding_def
        test_library_def scenario_A_def instance_A_def labelPrefix_def Let_def)
  from c direct have vmi: "vmi = instance_A ''''"
    by (simp add: holding_def)
  from r fails [of "Namespace scenario_A" vmi]
  have create: "CreateJobVM test_library (failing_client ?err) scenario_A ?s
      = (Inl ?err, \<lparr>calls = calls ?s @ [Create_call (Namespace scenario_A) vmi], cluster = ()\<rparr>)"
    by (simp add: holding_def)
  from t lfails [of "Namespace scenario_A" "Selector scenario_A"]
  have find: "FindJobVM (failing_client ?err) scenario_A ?s
      = (Inl ?err, \<lparr>calls = calls ?s @ [List_call (Namespace scenario_A) (Selector scenario_A)],
                    cluster = ()\<rparr>)"
    by (simp add: holding_def)
  from create find vmi scenario_A_valid fails lfails show ?thesis
    by (simp add: holding_def scenario_A_def Selector_def labelPrefix_def)
qed

text \<open>
  C7, as the code has it. When the lookup finds no instance, the error that FindJobVM
  returns is the fixed message "Virtual Machine instance disappeared while the job was
  running!": it is the same for every context and does not hold the ID.
\<close>

theorem FindJobVM_vanished:
  assumes "vmi_List client (Namespace jctx) (Selector jctx) (cluster s) = (Inr list, c')"
    and "Items list = []"
  shows "FindJobVM client jctx s
     = (Inl (errorString ''Virtual Machine instance disappeared while the job was running!''),
        \<lparr>calls = calls s @ [List_call (Namespace jctx) (Selector jctx)], cluster = c'\<rparr>)"
  using assms by (simp add: FindJobVM_def List_vmi_def)

theorem FindJobVM_vanished_witness:
  "vmi_List memory_client (Namespace scenario_A) (Selector scenario_A) (cluster (holding []))
     = (Inr \<lparr>Items = []\<rparr>, [])
   \<and> Items \<lparr>Items = ([] :: string VirtualMachineInstance list)\<rparr> = []
   \<and> FindJobVM memory_client scenario_A (holding [])
     = (Inl (errorString ''Virtual Machine instance disappeared while the job was running!''),
        \<lparr>calls = [List_call ''ci'' \<lparr>LabelSelector = ''gitlab-runner-kubevirt.snai.pe/id=job-1''\<rparr>],
          cluster = []\<rparr>)"
proof -
  have l0: "vmi_List memory_client (Namespace scenario_A) (Selector scenario_A)
      (cluster (holding [])) = (Inr \<lparr>Items = []\<rparr>, [])"
    using memory_client_list_A [of _ "[]"] by (simp add: holding_def)
  have e: "Items \<lparr>Items = ([] :: string VirtualMachineInstance list)\<rparr> = []"
    by simp
  from FindJobVM_vanished [OF l0 e] l0 show ?thesis
    by (simp add: holding_def scenario_A_def Selector_def labelPrefix_def)
qed

text \<open>
  The claim C7 as the spec states it fails: for scenario A's context, whose ID is
  \<open>job-1\<close>, on a cluster with no instance, the message of the error does not contain
  the ID.
\<close>

theorem FindJobVM_vanished_counterexample:
  "ID scenario_A = ''job-1''
   \<and> fst (FindJobVM memory_client scenario_A (holding []))
       = Inl (errorString ''Virtual Machine instance disappeared while the job was running!'')
   \<and> \<not> sublist (ID scenario_A)
         (Error (errorString
            ''Virtual Machine instance disappeared while the job was running!'' :: string error))"
  by (simp add: FindJobVM_def List_vmi_def memory_client_def holding_def scenario_A_def
      sublist_Cons_right)

end
